theory Spec2Isabelle
  imports Complex_Main
begin

section \<open>Numbers and exceptions\<close>

text \<open>
  The reprojection statistics of \<^verbatim>\<open>multical/interface/view_table.py\<close> work on numpy
  arrays of float64, bool and int64. A float64 is idealised here: a finite value is a
  real number (no rounding, no overflow, one unsigned zero), next to the two
  infinities and NaN, which is the no-data value of \<^verbatim>\<open>masked_quantile\<close>. The operations
  follow IEEE 754 on the special values. Integer counts are unbounded integers.
\<close>

datatype float64 = Fin real | PInf | NInf | NaN

datatype error = TypeError | AttributeError | ValueError | IndexError | ShapeMismatch

fun fsgn :: "float64 \<Rightarrow> int" where
  "fsgn (Fin a) = (if 0 < a then 1 else if a < 0 then - 1 else 0)"
| "fsgn PInf = 1"
| "fsgn NInf = - 1"
| "fsgn NaN = 0"

fun fneg :: "float64 \<Rightarrow> float64" where
  "fneg (Fin a) = Fin (- a)"
| "fneg PInf = NInf"
| "fneg NInf = PInf"
| "fneg NaN = NaN"

fun fadd :: "float64 \<Rightarrow> float64 \<Rightarrow> float64" where
  "fadd NaN y = NaN"
| "fadd x NaN = NaN"
| "fadd (Fin a) (Fin b) = Fin (a + b)"
| "fadd PInf NInf = NaN"
| "fadd NInf PInf = NaN"
| "fadd PInf y = PInf"
| "fadd NInf y = NInf"
| "fadd (Fin a) y = y"

definition fsub :: "float64 \<Rightarrow> float64 \<Rightarrow> float64" where
  "fsub x y = fadd x (fneg y)"

fun fmul :: "float64 \<Rightarrow> float64 \<Rightarrow> float64" where
  "fmul NaN y = NaN"
| "fmul x NaN = NaN"
| "fmul (Fin a) (Fin b) = Fin (a * b)"
| "fmul x y =
     (if fsgn x * fsgn y = 0 then NaN else if 0 < fsgn x * fsgn y then PInf else NInf)"

fun fdiv :: "float64 \<Rightarrow> float64 \<Rightarrow> float64" where
  "fdiv NaN y = NaN"
| "fdiv x NaN = NaN"
| "fdiv (Fin a) (Fin b) =
     (if b \<noteq> 0 then Fin (a / b)
      else if a = 0 then NaN else if 0 < a then PInf else NInf)"
| "fdiv (Fin a) y = Fin 0"
| "fdiv x (Fin b) = (if b < 0 then fneg x else x)"
| "fdiv x y = NaN"

fun fsqrt :: "float64 \<Rightarrow> float64" where
  "fsqrt (Fin a) = (if a < 0 then NaN else Fin (sqrt a))"
| "fsqrt PInf = PInf"
| "fsqrt NInf = NaN"
| "fsqrt NaN = NaN"

text \<open>The comparison \<^verbatim>\<open>x < y\<close>: false as soon as one side is NaN.\<close>

fun flt :: "float64 \<Rightarrow> float64 \<Rightarrow> bool" where
  "flt NaN y = False"
| "flt x NaN = False"
| "flt (Fin a) (Fin b) = (a < b)"
| "flt x PInf = (x \<noteq> PInf)"
| "flt NInf y = (y \<noteq> NInf)"
| "flt x y = False"

section \<open>Arrays seen along the reduction axis\<close>

text \<open>
  Every numpy operation of \<^verbatim>\<open>masked_quantile\<close> and \<^verbatim>\<open>reprojection_statistics\<close>
  is either elementwise (\<^verbatim>\<open>~\<close>, \<^verbatim>\<open>&\<close>, \<^verbatim>\<open>np.square\<close>, the assignment under a boolean
  mask) or a reduction along \<^verbatim>\<open>axis\<close> (\<^verbatim>\<open>sum\<close>, \<^verbatim>\<open>np.nanquantile\<close>). An array
  argument is therefore given as the list of its reduction slices: the outer list runs
  over the coordinates that \<^verbatim>\<open>axis\<close> keeps (in row-major order), each inner list holds
  the entries that are reduced together. \<^verbatim>\<open>axis=None\<close> is the case of one slice. The
  result of a reduction has one entry per slice. Where the shape of that result
  matters, it is given next to the slices as \<open>kept\<close>: the lengths of the axes that
  \<^verbatim>\<open>axis\<close> keeps, \<open>[]\<close> for \<^verbatim>\<open>axis=None\<close>, whose results are scalars.

  The model is exact for calls whose arrays have one shape. Arrays of different shapes
  are either broadcast by numpy or make it raise; the model reports ValueError or
  IndexError for all of them.
\<close>

type_synonym 'a slices = "'a list list"

definition shape :: "'a slices \<Rightarrow> nat list" where
  "shape a = map length a"

text \<open>\<^verbatim>\<open>valid.sum(axis=axis)\<close> on a bool array: the number of True entries per slice.\<close>

definition count_true :: "bool list \<Rightarrow> int" where
  "count_true bs = int (length (filter (\<lambda>b. b) bs))"

definition np_sum_bool :: "bool slices \<Rightarrow> int list" where
  "np_sum_bool a = map count_true a"

primrec fsum :: "float64 list \<Rightarrow> float64" where
  "fsum [] = Fin 0"
| "fsum (x # xs) = fadd x (fsum xs)"

definition np_sum :: "float64 slices \<Rightarrow> float64 list" where
  "np_sum a = map fsum a"

definition np_square :: "float64 slices \<Rightarrow> float64 slices" where
  "np_square a = map (map (\<lambda>x. fmul x x)) a"

definition np_maximum :: "int list \<Rightarrow> int \<Rightarrow> int list" where
  "np_maximum n k = map (\<lambda>x. max x k) n"

text \<open>
  \<^verbatim>\<open>float_array / int_array\<close>: true division, entry by entry. Operands of different
  shapes raise ValueError (numpy would first try to broadcast them; broadcasting is
  not modelled, the arrays of one call have one shape).
\<close>

definition np_divide :: "float64 list \<Rightarrow> int list \<Rightarrow> error + float64 list" where
  "np_divide x n =
     (if length x \<noteq> length n then Inl ValueError
      else Inr (map2 (\<lambda>a k. fdiv a (Fin (of_int k))) x n))"

definition np_sqrt :: "float64 list \<Rightarrow> float64 list" where
  "np_sqrt x = map fsqrt x"

definition np_not :: "bool slices \<Rightarrow> bool slices" where
  "np_not a = map (map (\<lambda>b. \<not> b)) a"

definition np_and :: "bool slices \<Rightarrow> bool slices \<Rightarrow> error + bool slices" where
  "np_and a b =
     (if shape a \<noteq> shape b then Inl ValueError
      else Inr (map2 (map2 (\<lambda>x y. x \<and> y)) a b))"

subsection \<open>np.nanquantile\<close>

text \<open>
  \<^verbatim>\<open>np.nanquantile(a, q, axis)\<close> with the default linear interpolation. A quantile
  outside \<^verbatim>\<open>[0, 1]\<close> raises ValueError. For an array with no element at all
  (\<^verbatim>\<open>a.size == 0\<close>) numpy returns \<^verbatim>\<open>np.nanmean(a, axis)\<close>: one NaN per slice and no
  axis for the quantiles (\<open>NoQuantileAxis\<close>). Otherwise the result has one row per
  quantile (\<open>PerQuantile\<close>): per slice, the NaN entries are dropped, the rest is sorted
  and the quantile is read at the virtual index \<^verbatim>\<open>q * (n - 1)\<close>, interpolating between
  its two neighbours. A slice with no entry left gives NaN (numpy warns "All-NaN slice
  encountered" and does not raise).
  The interpolation is \<^verbatim>\<open>a + (b - a) * t\<close>, computed from the upper neighbour when
  \<^verbatim>\<open>t >= 0.5\<close>; on finite neighbours both forms are the same number.
\<close>

datatype quantile_result = PerQuantile "float64 list list" | NoQuantileAxis "float64 list"

fun insort_f :: "float64 \<Rightarrow> float64 list \<Rightarrow> float64 list" where
  "insort_f x [] = [x]"
| "insort_f x (y # ys) = (if flt y x then y # insort_f x ys else x # y # ys)"

primrec sort_f :: "float64 list \<Rightarrow> float64 list" where
  "sort_f [] = []"
| "sort_f (x # xs) = insort_f x (sort_f xs)"

definition lerp :: "float64 \<Rightarrow> float64 \<Rightarrow> real \<Rightarrow> float64" where
  "lerp a b t =
     (let diff_b_a = fsub b a
      in if 1 / 2 \<le> t then fsub b (fmul diff_b_a (Fin (1 - t)))
         else fadd a (fmul diff_b_a (Fin t)))"

definition quantile_sorted :: "float64 list \<Rightarrow> real \<Rightarrow> float64" where
  "quantile_sorted arr q =
     (let n = length arr;
          virtual_index = q * real (n - 1);
          previous = nat \<lfloor>virtual_index\<rfloor>;
          next = min (previous + 1) (n - 1);
          gamma = virtual_index - real previous
      in lerp (arr ! previous) (arr ! next) gamma)"

definition remove_nan :: "float64 list \<Rightarrow> float64 list" where
  "remove_nan arr1d = filter (\<lambda>x. x \<noteq> NaN) arr1d"

definition nanquantile_1d :: "float64 list \<Rightarrow> real \<Rightarrow> float64" where
  "nanquantile_1d arr1d q =
     (let arr = sort_f (remove_nan arr1d)
      in if arr = [] then NaN else quantile_sorted arr q)"

definition np_nanquantile :: "float64 slices \<Rightarrow> real list \<Rightarrow> error + quantile_result" where
  "np_nanquantile a quantiles =
     (if \<not> list_all (\<lambda>q. 0 \<le> q \<and> q \<le> 1) quantiles then Inl ValueError
      else if concat a = [] then Inr (NoQuantileAxis (map (\<lambda>s. NaN) a))
      else Inr (PerQuantile (map (\<lambda>q. map (\<lambda>s. nanquantile_1d s q) a) quantiles)))"

section \<open>view\_table.py: masked\_quantile and reprojection\_statistics\<close>

text \<open>
  \<^verbatim>\<open>
  def masked_quantile(error, mask, quantiles, axis=None):
    error = error.copy()
    error[~mask] = math.nan
    return np.nanquantile(error, quantiles, axis=axis)
  \<close>
  The assignment under the boolean mask raises IndexError unless the mask has the
  shape of the array. It writes into the copy; \<open>masked_fill\<close> is the copy after it.
  The argument \<^verbatim>\<open>mask\<close> is written \<open>msk\<close>. (numpy also takes a mask over the
  leading axes of the array only, which stands for the mask of the full shape that
  repeats it along the other axes; \<open>msk\<close> is the mask in its full shape.)
\<close>

definition masked_fill :: "float64 slices \<Rightarrow> bool slices \<Rightarrow> float64 slices" where
  "masked_fill error msk = map2 (map2 (\<lambda>e m. if \<not> m then NaN else e)) error msk"

definition masked_quantile ::
  "float64 slices \<Rightarrow> bool slices \<Rightarrow> real list \<Rightarrow> error + quantile_result" where
  "masked_quantile error msk quantiles =
     (if shape msk \<noteq> shape error then Inl IndexError
      else np_nanquantile (masked_fill error msk) quantiles)"

text \<open>
  \<^verbatim>\<open>
  def reprojection_statistics(error, valid, inlier, axis=None):
    n = valid.sum(axis=axis)
    mse = np.square(error).sum(axis=axis) / np.maximum(n, 1)

    outliers = (valid & ~inlier).sum(axis=axis)
    quantiles = masked_quantile(
        error, valid, [0, 0.25, 0.5, 0.75, 1.0], axis=axis)
    min, lq, median, uq, max = quantiles

    return Table.create(detected=n, outliers=outliers, mse=mse, rms=np.sqrt(mse),
                        min=min, lower_q=lq, median=median, upper_q=uq, max=max)
  \<close>
  The fields \<^verbatim>\<open>min\<close> and \<^verbatim>\<open>max\<close> are \<open>min_q\<close> and \<open>max_q\<close> here. The record is
  polymorphic in the field types: a table holds one entry per slice, the struct read
  from it at one index holds scalars. The last argument of the model stands for
  \<^verbatim>\<open>axis\<close>: it is \<open>kept\<close>, the shape of the results of the reductions.
\<close>

record ('i, 'f) stats =
  detected :: 'i
  outliers :: 'i
  mse :: 'f
  rms :: 'f
  min_q :: 'f
  lower_q :: 'f
  median :: 'f
  upper_q :: 'f
  max_q :: 'f

type_synonym stats_table = "(int list, float64 list) stats"

text \<open>
  \<^verbatim>\<open>min, lq, median, uq, max = quantiles\<close> iterates over the first axis of the array
  and needs exactly five items. A \<open>PerQuantile\<close> result has the quantiles as its first
  axis and yields its rows, each of the shape \<open>kept\<close>. A \<open>NoQuantileAxis\<close> result has
  the shape \<open>kept\<close> itself: a scalar (\<open>kept = []\<close>) is not iterable and raises
  TypeError, otherwise the items are the sub-arrays along the first kept axis. The
  function returns the shape of the items with them; a number of items other than
  five raises ValueError at the assignment.
\<close>

definition iterate_first_axis ::
  "nat list \<Rightarrow> quantile_result \<Rightarrow> error + nat list \<times> float64 list list" where
  "iterate_first_axis kept quantiles =
     (case quantiles of
        PerQuantile rows \<Rightarrow> Inr (kept, rows)
      | NoQuantileAxis v \<Rightarrow>
          (case kept of
             [] \<Rightarrow> Inl TypeError
           | k0 # rest \<Rightarrow>
               Inr (rest, map (\<lambda>i. take (prod_list rest) (drop (i * prod_list rest) v)) [0..<k0])))"

text \<open>
  Modelled from the spec: \<^verbatim>\<open>Table.create\<close>, of the package \<^verbatim>\<open>structs\<close>, is missing from
  the sources. The spec (4.1): "\<^verbatim>\<open>create(fields...)\<close>: builds a Table from
  same-leading-shape arrays; fails with \<^verbatim>\<open>ShapeMismatch\<close> if any field's leading
  dimensions disagree." The counts, \<^verbatim>\<open>mse\<close> and \<^verbatim>\<open>rms\<close> have the shape \<open>kept\<close>, the five
  quantile fields the shape of the items of the unpacking; the leading dimension of a
  shape is its first entry, a scalar has none.
\<close>

definition leading_dimension :: "nat list \<Rightarrow> nat option" where
  "leading_dimension shp = (case shp of [] \<Rightarrow> None | d # rest \<Rightarrow> Some d)"

definition Table_create :: "nat list \<Rightarrow> nat list \<Rightarrow> stats_table \<Rightarrow> error + stats_table" where
  "Table_create kept item_shape t =
     (if leading_dimension item_shape \<noteq> leading_dimension kept then Inl ShapeMismatch
      else Inr t)"

text \<open>
  The last two statements of \<^verbatim>\<open>reprojection_statistics\<close>, the unpacking and the call
  of \<^verbatim>\<open>Table.create\<close>. \<open>kept_n\<close> is the shape of the counts, \<open>kept\<close> the shape of the
  reduction of the error array; for arrays of one shape they are the same.
\<close>

definition unpack_and_create ::
  "nat list \<Rightarrow> nat list \<Rightarrow> int list \<Rightarrow> int list \<Rightarrow> float64 list \<Rightarrow> quantile_result \<Rightarrow>
   error + stats_table" where
  "unpack_and_create kept_n kept n outliers_v mse_v quantiles =
     (case iterate_first_axis kept quantiles of
        Inl e \<Rightarrow> Inl e
      | Inr (item_shape, [mn, lq, med, uq, mx]) \<Rightarrow>
          Table_create kept_n item_shape
            \<lparr>detected = n, outliers = outliers_v, mse = mse_v, rms = np_sqrt mse_v,
             min_q = mn, lower_q = lq, median = med, upper_q = uq, max_q = mx\<rparr>
      | Inr _ \<Rightarrow> Inl ValueError)"

definition reprojection_statistics ::
  "float64 slices \<Rightarrow> bool slices \<Rightarrow> bool slices \<Rightarrow> nat list \<Rightarrow> error + stats_table" where
  "reprojection_statistics error valid inlier kept =
     (let n = np_sum_bool valid in
      case np_divide (np_sum (np_square error)) (np_maximum n 1) of
        Inl e \<Rightarrow> Inl e
      | Inr mse_v \<Rightarrow>
      (case np_and valid (np_not inlier) of
        Inl e \<Rightarrow> Inl e
      | Inr valid_not_inlier \<Rightarrow>
      (let outliers_v = np_sum_bool valid_not_inlier in
       case masked_quantile error valid [0, 1 / 4, 1 / 2, 3 / 4, 1] of
         Inl e \<Rightarrow> Inl e
       | Inr quantiles \<Rightarrow> unpack_and_create kept kept n outliers_v mse_v quantiles)))"

text \<open>
  The entries of a slice that a mask selects, in order: what the claims about masked
  statistics call "the points where the mask is true".
\<close>

definition selected :: "'a list \<Rightarrow> bool list \<Rightarrow> 'a list" where
  "selected e m = map fst (filter snd (zip e m))"

text \<open>The values that a result of \<^verbatim>\<open>masked_quantile\<close> holds for the slice \<open>k\<close>.\<close>

definition slice_values :: "quantile_result \<Rightarrow> nat \<Rightarrow> float64 list" where
  "slice_values r k =
     (case r of PerQuantile rows \<Rightarrow> map (\<lambda>row. row ! k) rows | NoQuantileAxis v \<Rightarrow> [v ! k])"

section \<open>view\_table.py: ViewModelCalibrated.cell\_color\<close>

text \<open>
  \<^verbatim>\<open>
  def interpolate_hsl(t, color1, color2):
    hsl1 = np.array(color1.get_hsl())
    hsl2 = np.array(color2.get_hsl())
    return Color(hsl=hsl2 * t + hsl1 * (1 - t))

  def cell_color(self, view_stats):
    detection_rate = min(view_stats.detected / self.calib.board.num_points, 1)
    outlier_rate = view_stats.outliers / max(view_stats.detected, 1)

    outlier_t = min(outlier_rate * 5, 1.0)
    color = interpolate_hsl(
        outlier_t, self.colors.inliers, self.colors.outliers)

    color.set_luminance(max(1 - detection_rate, 0.7))
    return color
  \<close>
  A \<^verbatim>\<open>colour.Color\<close> is its hue, saturation and luminance. Of the view model only
  what \<^verbatim>\<open>cell_color\<close> reads is kept: \<^verbatim>\<open>self.calib.board.num_points\<close> and the two
  colours \<^verbatim>\<open>self.colors.inliers\<close> and \<^verbatim>\<open>self.colors.outliers\<close> (fields
  \<open>inlier_color\<close> and \<open>outlier_color\<close>). \<^verbatim>\<open>view_stats\<close> is the struct of scalars read
  from the per-view statistics table, its counts are numpy integers: their true
  division yields a float64 and signals a zero divisor by nan or an infinity and a
  warning, not by an exception. \<^verbatim>\<open>min\<close> and \<^verbatim>\<open>max\<close> are the Python builtins, which
  return their first argument unless the comparison with the second one holds.
\<close>

record color =
  hue :: float64
  saturation :: float64
  luminance :: float64

record view_model =
  num_points :: int
  inlier_color :: color
  outlier_color :: color

type_synonym view_stats = "(int, float64) stats"

definition true_divide :: "int \<Rightarrow> int \<Rightarrow> float64" where
  "true_divide a b = fdiv (Fin (of_int a)) (Fin (of_int b))"

definition py_min :: "float64 \<Rightarrow> float64 \<Rightarrow> float64" where
  "py_min a b = (if flt b a then b else a)"

definition py_max :: "float64 \<Rightarrow> float64 \<Rightarrow> float64" where
  "py_max a b = (if flt a b then b else a)"

definition interpolate_hsl :: "float64 \<Rightarrow> color \<Rightarrow> color \<Rightarrow> color" where
  "interpolate_hsl t color1 color2 =
     \<lparr>hue = fadd (fmul (hue color2) t) (fmul (hue color1) (fsub (Fin 1) t)),
      saturation = fadd (fmul (saturation color2) t) (fmul (saturation color1) (fsub (Fin 1) t)),
      luminance = fadd (fmul (luminance color2) t) (fmul (luminance color1) (fsub (Fin 1) t))\<rparr>"

definition set_luminance :: "color \<Rightarrow> float64 \<Rightarrow> color" where
  "set_luminance c v = c\<lparr>luminance := v\<rparr>"

definition detection_rate :: "view_model \<Rightarrow> view_stats \<Rightarrow> float64" where
  "detection_rate self view_stats =
     py_min (true_divide (detected view_stats) (num_points self)) (Fin 1)"

definition outlier_rate :: "view_stats \<Rightarrow> float64" where
  "outlier_rate view_stats =
     true_divide (outliers view_stats) (max (detected view_stats) 1)"

definition cell_color :: "view_model \<Rightarrow> view_stats \<Rightarrow> color" where
  "cell_color self view_stats =
     (let outlier_t = py_min (fmul (outlier_rate view_stats) (Fin 5)) (Fin 1);
          color = interpolate_hsl outlier_t (inlier_color self) (outlier_color self)
      in set_luminance color (py_max (fsub (Fin 1) (detection_rate self view_stats)) (Fin (7 / 10))))"

section \<open>motion/static.py: the Static motion model\<close>

text \<open>
  \<^verbatim>\<open>
  class Static(Parameters):
    def __init__(self, poses):
      self.poses = poses

    def project(self, cameras, camera_poses, world_points):
      return self.reproject(cameras, camera_poses, world_points)

    def reproject(self, cameras, camera_poses, world_points, detected):
      view_table = tables.expand_views(camera_poses, self.poses)
      transformed = tables.transform_points(world_points, view_table)

      image_points = [camera.project(p) for camera, p in
        zip(self.cameras, transformed.points)]

      return Table.create(points=np.stack(image_points), valid=transformed.valid)

    def params(self):
      pass

    def with_params(self, params):
      pass

    def sparsity(self, index_table):
      pass
  \<close>
  An instance has the attribute \<^verbatim>\<open>poses\<close> that \<^verbatim>\<open>__init__\<close> sets. \<^verbatim>\<open>reproject\<close> also
  reads \<^verbatim>\<open>self.cameras\<close>, which nothing in the class assigns: the field \<open>cameras_attr\<close>
  is \<open>None\<close> while the attribute is unset, and reading it then raises AttributeError.
  The functions of \<^verbatim>\<open>multical.tables\<close> and the cameras' \<^verbatim>\<open>project\<close> are not part
  of these sources; they are parameters (\<open>tables_ops\<close>), each free to raise.
  The poses, point blocks and masks they exchange are left abstract.
  A method whose body is \<^verbatim>\<open>pass\<close> returns \<^verbatim>\<open>None\<close>.
\<close>

record ('p, 'cam) static =
  poses :: 'p
  cameras_attr :: "'cam list option"

definition Static_init :: "'p \<Rightarrow> ('p, 'cam) static" where
  "Static_init p = \<lparr>poses = p, cameras_attr = None\<rparr>"

record ('b, 'm) point_tbl =
  tbl_points :: "'b list"
  tbl_valid :: 'm

record ('cp, 'p, 'w, 'v, 'b, 'm, 'cam, 'ib) tables_ops =
  expand_views :: "'cp \<Rightarrow> 'p \<Rightarrow> error + 'v"
  transform_points :: "'w \<Rightarrow> 'v \<Rightarrow> error + ('b, 'm) point_tbl"
  camera_project :: "'cam \<Rightarrow> 'b \<Rightarrow> error + 'ib"

text \<open>The list comprehension: the first call that raises ends it.\<close>

fun project_each ::
  "('cam \<Rightarrow> 'b \<Rightarrow> error + 'ib) \<Rightarrow> ('cam \<times> 'b) list \<Rightarrow> error + 'ib list" where
  "project_each f [] = Inr []"
| "project_each f ((camera, p) # rest) =
     (case f camera p of
        Inl e \<Rightarrow> Inl e
      | Inr ip \<Rightarrow> (case project_each f rest of Inl e \<Rightarrow> Inl e | Inr ips \<Rightarrow> Inr (ip # ips)))"

text \<open>
  \<^verbatim>\<open>reproject\<close> has four required parameters after \<^verbatim>\<open>self\<close>. The last argument of the
  model is \<open>None\<close> for a call that passes only three: Python raises TypeError before
  the body runs. \<^verbatim>\<open>np.stack\<close> raises ValueError on an empty list. The parameters
  \<^verbatim>\<open>cameras\<close> and \<^verbatim>\<open>detected\<close> are not read by the body.
\<close>

definition Static_reproject ::
  "('cp, 'p, 'w, 'v, 'b, 'm, 'cam, 'ib) tables_ops \<Rightarrow> ('p, 'cam) static \<Rightarrow>
   'cam list \<Rightarrow> 'cp \<Rightarrow> 'w \<Rightarrow> 'd option \<Rightarrow> error + ('ib, 'm) point_tbl" where
  "Static_reproject ops self cameras camera_poses world_points detected_arg =
     (case detected_arg of
        None \<Rightarrow> Inl TypeError
      | Some detected_tbl \<Rightarrow>
     (case expand_views ops camera_poses (poses self) of
        Inl e \<Rightarrow> Inl e
      | Inr view_table \<Rightarrow>
     (case transform_points ops world_points view_table of
        Inl e \<Rightarrow> Inl e
      | Inr transformed \<Rightarrow>
     (case cameras_attr self of
        None \<Rightarrow> Inl AttributeError
      | Some self_cameras \<Rightarrow>
     (case project_each (camera_project ops) (zip self_cameras (tbl_points transformed)) of
        Inl e \<Rightarrow> Inl e
      | Inr image_points \<Rightarrow>
          if image_points = [] then Inl ValueError
          else Inr \<lparr>tbl_points = image_points, tbl_valid = tbl_valid transformed\<rparr>)))))"

definition Static_project ::
  "('cp, 'p, 'w, 'v, 'b, 'm, 'cam, 'ib) tables_ops \<Rightarrow> ('p, 'cam) static \<Rightarrow>
   'cam list \<Rightarrow> 'cp \<Rightarrow> 'w \<Rightarrow> error + ('ib, 'm) point_tbl" where
  "Static_project ops self cameras camera_poses world_points =
     Static_reproject ops self cameras camera_poses world_points (None :: unit option)"

text \<open>
  The values the three stub methods can return or be called on: \<^verbatim>\<open>None\<close>, a Static
  instance, a flat parameter vector. \<open>call_params\<close> is the call \<^verbatim>\<open>obj.params()\<close> on
  such a value: only a Static instance has the method.
\<close>

datatype ('p, 'cam) pyval = PyNone | PyStatic "('p, 'cam) static" | PyVector "real list"

definition Static_params :: "('p, 'cam) static \<Rightarrow> ('p, 'cam) pyval" where
  "Static_params self = PyNone"

definition Static_with_params :: "('p, 'cam) static \<Rightarrow> real list \<Rightarrow> ('p, 'cam) pyval" where
  "Static_with_params self params = PyNone"

definition Static_sparsity :: "('p, 'cam) static \<Rightarrow> 'i \<Rightarrow> ('p, 'cam) pyval" where
  "Static_sparsity self index_table = PyNone"

fun call_params :: "('p, 'cam) pyval \<Rightarrow> error + ('p, 'cam) pyval" where
  "call_params (PyStatic s) = Inr (Static_params s)"
| "call_params PyNone = Inl AttributeError"
| "call_params (PyVector v) = Inl AttributeError"

section \<open>Arrays as objects: what the calls write\<close>

text \<open>
  numpy arrays and tables are objects that a callee could change in place. To state
  what a call leaves untouched, the objects live in a heap: a list of objects, the
  address of an object being its index. Allocation appends; nothing is ever freed.
  An array has the three axes of the error array of \<^verbatim>\<open>reprojection_tables\<close>
  (camera, frame, point) and is a nested list; a table holds the addresses of the
  arrays of its fields. \<open>unchanged h h'\<close>: every object of \<open>h\<close> is still at its address
  in \<open>h'\<close>, with the same contents (\<open>h'\<close> starts with \<open>h\<close>).
\<close>

datatype obj =
    FloatArray "float64 list list list"
  | BoolArray "bool list list list"
  | PointArray "(float64 \<times> float64) list list list"
  | TableObj "(string \<times> nat) list"

type_synonym heap = "obj list"

definition lookup :: "heap \<Rightarrow> nat \<Rightarrow> obj option" where
  "lookup h a = (if a < length h then Some (h ! a) else None)"

definition alloc :: "heap \<Rightarrow> obj \<Rightarrow> nat \<times> heap" where
  "alloc h x = (length h, h @ [x])"

definition unchanged :: "heap \<Rightarrow> heap \<Rightarrow> bool" where
  "unchanged h h' = (take (length h) h' = h)"

text \<open>
  The four values of \<^verbatim>\<open>axis\<close> that \<^verbatim>\<open>reprojection_tables\<close> uses:
  \<^verbatim>\<open>struct(overall=None, views=2, cameras=(1, 2), frames=(0, 2))\<close>. \<open>view ax a\<close> lists the
  reduction slices of the array \<open>a\<close> along \<open>ax\<close>: everything for \<^verbatim>\<open>None\<close>, the points of
  one camera and frame for \<^verbatim>\<open>2\<close>, all of one camera for \<^verbatim>\<open>(1, 2)\<close>, all of one frame
  for \<^verbatim>\<open>(0, 2)\<close>.
\<close>

datatype axis = AxisNone | Axis2 | Axis12 | Axis02

fun view :: "axis \<Rightarrow> 'a list list list \<Rightarrow> 'a slices" where
  "view AxisNone a = [concat (concat a)]"
| "view Axis2 a = concat a"
| "view Axis12 a = map concat a"
| "view Axis02 a = map concat (transpose a)"

text \<open>
  The shape of the result of a reduction along \<open>ax\<close>: the lengths of the axes that are
  kept. A nested list has the lengths of its first items; an axis below an empty one
  has length 0.
\<close>

definition frames_of :: "'a list list list \<Rightarrow> nat" where
  "frames_of a = (case a of [] \<Rightarrow> 0 | x # rest \<Rightarrow> length x)"

fun kept_shape :: "axis \<Rightarrow> 'a list list list \<Rightarrow> nat list" where
  "kept_shape AxisNone a = []"
| "kept_shape Axis2 a = [length a, frames_of a]"
| "kept_shape Axis12 a = [length a]"
| "kept_shape Axis02 a = [frames_of a]"

definition shape3 :: "'a list list list \<Rightarrow> nat list list" where
  "shape3 a = map (map length) a"

definition map3 :: "('a \<Rightarrow> 'b) \<Rightarrow> 'a list list list \<Rightarrow> 'b list list list" where
  "map3 g a = map (map (map g)) a"

definition zip3 :: "'a list list list \<Rightarrow> 'b list list list \<Rightarrow> ('a \<times> 'b) list list list" where
  "zip3 a b = map2 (map2 zip) a b"

definition zip_with3 ::
  "('a \<Rightarrow> 'b \<Rightarrow> 'c) \<Rightarrow> 'a list list list \<Rightarrow> 'b list list list \<Rightarrow> 'c list list list" where
  "zip_with3 g a b = map2 (map2 (map2 g)) a b"

definition np_and3 ::
  "bool list list list \<Rightarrow> bool list list list \<Rightarrow> error + bool list list list" where
  "np_and3 a b =
     (if shape3 a \<noteq> shape3 b then Inl ValueError else Inr (zip_with3 (\<lambda>x y. x \<and> y) a b))"

text \<open>
  \<^verbatim>\<open>masked_quantile\<close> with its effects. \<^verbatim>\<open>error = error.copy()\<close> allocates a new array
  and rebinds the local name to it; \<^verbatim>\<open>error[~mask] = math.nan\<close> writes into that new
  array; \<^verbatim>\<open>np.nanquantile\<close> reads it. The heap is returned also when the call raises.
\<close>

definition masked_quantile_heap ::
  "heap \<Rightarrow> axis \<Rightarrow> nat \<Rightarrow> nat \<Rightarrow> real list \<Rightarrow> (error + quantile_result) \<times> heap" where
  "masked_quantile_heap h ax error msk quantiles =
     (case (lookup h error, lookup h msk) of
        (Some (FloatArray e), Some (BoolArray m)) \<Rightarrow>
          (let (error', h1) = alloc h (FloatArray e)
           in if shape3 m \<noteq> shape3 e then (Inl IndexError, h1)
              else (let h2 = h1[error' := FloatArray (zip_with3 (\<lambda>x b. if \<not> b then NaN else x) e m)]
                    in case lookup h2 error' of
                         Some (FloatArray e') \<Rightarrow> (np_nanquantile (view ax e') quantiles, h2)
                       | _ \<Rightarrow> (Inl TypeError, h2)))
      | _ \<Rightarrow> (Inl TypeError, h))"

text \<open>
  \<^verbatim>\<open>reprojection_statistics\<close> on arrays in the heap, statement by statement. The
  temporaries (\<^verbatim>\<open>n\<close>, \<^verbatim>\<open>mse\<close>, \<^verbatim>\<open>~inlier\<close>, ...) are fresh values that nothing writes
  to; only the call of \<^verbatim>\<open>masked_quantile\<close> touches the heap.
\<close>

definition reprojection_statistics_heap ::
  "heap \<Rightarrow> axis \<Rightarrow> nat \<Rightarrow> nat \<Rightarrow> nat \<Rightarrow> (error + stats_table) \<times> heap" where
  "reprojection_statistics_heap h ax error valid inlier =
     (case (lookup h error, lookup h valid, lookup h inlier) of
        (Some (FloatArray e), Some (BoolArray v), Some (BoolArray i)) \<Rightarrow>
          (let n = np_sum_bool (view ax v) in
           case np_divide (np_sum (view ax (map3 (\<lambda>x. fmul x x) e))) (np_maximum n 1) of
             Inl x \<Rightarrow> (Inl x, h)
           | Inr mse_v \<Rightarrow>
           (case np_and3 v (map3 (\<lambda>b. \<not> b) i) of
             Inl x \<Rightarrow> (Inl x, h)
           | Inr valid_not_inlier \<Rightarrow>
           (let outliers_v = np_sum_bool (view ax valid_not_inlier) in
            case masked_quantile_heap h ax error valid [0, 1 / 4, 1 / 2, 3 / 4, 1] of
              (Inl x, h') \<Rightarrow> (Inl x, h')
            | (Inr quantiles, h') \<Rightarrow>
                (unpack_and_create (kept_shape ax v) (kept_shape ax e) n outliers_v mse_v
                   quantiles, h'))))
      | _ \<Rightarrow> (Inl TypeError, h))"

text \<open>
  \<^verbatim>\<open>
  def reprojection_tables(calib, inlier_only=False):
    point_table = calib.point_table
    if inlier_only:
      point_table = point_table._extend(valid_points=calib.inliers)

    error, valid = tables.reprojection_error(calib.projected, point_table)

    def f(axis): return reprojection_statistics(
        error, valid, calib.inliers, axis=axis)
    axes = struct(overall=None, views=2, cameras=(1, 2), frames=(0, 2))
    return axes._map(f)
  \<close>
  Of \<^verbatim>\<open>calib\<close> the addresses of the three objects that are read are kept. The method
  \<^verbatim>\<open>_extend\<close> (package \<^verbatim>\<open>structs\<close>) and \<^verbatim>\<open>tables.reprojection_error\<close> are not part of
  these sources: they are the parameters \<open>extend_f\<close> and \<open>reprojection_error_f\<close>, which
  take the heap and return it. \<^verbatim>\<open>point_table\<close> is a local name: the assignment under
  \<^verbatim>\<open>if\<close> rebinds it and does not write to \<^verbatim>\<open>calib\<close>. \<^verbatim>\<open>axes._map(f)\<close> calls \<^verbatim>\<open>f\<close>
  on the four axes in turn (\<open>axes_map\<close>); the fields of its result are suffixed
  \<open>_t\<close> here.
\<close>

record calibration =
  point_table :: nat
  inliers :: nat
  projected :: nat

record 'a axes =
  overall_t :: 'a
  views_t :: 'a
  cameras_t :: 'a
  frames_t :: 'a

type_synonym extend_op = "heap \<Rightarrow> nat \<Rightarrow> string \<Rightarrow> nat \<Rightarrow> (error + nat) \<times> heap"

type_synonym reprojection_error_op = "heap \<Rightarrow> nat \<Rightarrow> nat \<Rightarrow> (error + nat \<times> nat) \<times> heap"

definition axes_map ::
  "(heap \<Rightarrow> axis \<Rightarrow> (error + 'a) \<times> heap) \<Rightarrow> heap \<Rightarrow> (error + 'a axes) \<times> heap" where
  "axes_map f h =
     (case f h AxisNone of
        (Inl x, h1) \<Rightarrow> (Inl x, h1)
      | (Inr t_overall, h1) \<Rightarrow>
     (case f h1 Axis2 of
        (Inl x, h2) \<Rightarrow> (Inl x, h2)
      | (Inr t_views, h2) \<Rightarrow>
     (case f h2 Axis12 of
        (Inl x, h3) \<Rightarrow> (Inl x, h3)
      | (Inr t_cameras, h3) \<Rightarrow>
     (case f h3 Axis02 of
        (Inl x, h4) \<Rightarrow> (Inl x, h4)
      | (Inr t_frames, h4) \<Rightarrow>
          (Inr \<lparr>overall_t = t_overall, views_t = t_views, cameras_t = t_cameras,
                frames_t = t_frames\<rparr>, h4)))))"

definition reprojection_tables_heap ::
  "extend_op \<Rightarrow> reprojection_error_op \<Rightarrow> heap \<Rightarrow> calibration \<Rightarrow> bool \<Rightarrow>
   (error + stats_table axes) \<times> heap" where
  "reprojection_tables_heap extend_f reprojection_error_f h calib inlier_only =
     (let point_table_v = point_table calib in
      case (if inlier_only then extend_f h point_table_v ''valid_points'' (inliers calib)
            else (Inr point_table_v, h)) of
        (Inl x, h1) \<Rightarrow> (Inl x, h1)
      | (Inr point_table_v', h1) \<Rightarrow>
     (case reprojection_error_f h1 (projected calib) point_table_v' of
        (Inl x, h2) \<Rightarrow> (Inl x, h2)
      | (Inr (error, valid), h2) \<Rightarrow>
          axes_map (\<lambda>h' ax. reprojection_statistics_heap h' ax error valid (inliers calib)) h2))"

subsection \<open>The two helpers, from the spec\<close>

text \<open>
  Modelled from the spec: \<^verbatim>\<open>Table._extend\<close>, of the package \<^verbatim>\<open>structs\<close>, is missing from
  the sources. The spec (4.1): "\<^verbatim>\<open>extend(extra_fields...)\<close>: returns a new Table with
  additional fields sharing the same shape; fails if shapes disagree." The new table
  is a new object whose fields are those of the old one, the given field added or
  replaced. It serves as an instance of the parameter \<open>extend_f\<close>.
\<close>

definition get_field :: "heap \<Rightarrow> (string \<times> nat) list \<Rightarrow> string \<Rightarrow> obj option" where
  "get_field h flds name = (case map_of flds name of None \<Rightarrow> None | Some a \<Rightarrow> lookup h a)"

fun obj_shape :: "obj \<Rightarrow> nat list list option" where
  "obj_shape (FloatArray a) = Some (shape3 a)"
| "obj_shape (BoolArray a) = Some (shape3 a)"
| "obj_shape (PointArray a) = Some (shape3 a)"
| "obj_shape (TableObj flds) = None"

definition extend_spec :: extend_op where
  "extend_spec h t name a =
     (case (lookup h t, lookup h a) of
        (Some (TableObj flds), Some arr) \<Rightarrow>
          if list_all (\<lambda>(k, b). map_option obj_shape (lookup h b) = Some (obj_shape arr)) flds
             \<and> obj_shape arr \<noteq> None
          then (let (t', h1) = alloc h (TableObj ((name, a) # filter (\<lambda>(k, b). k \<noteq> name) flds))
                in (Inr t', h1))
          else (Inl ValueError, h)
      | _ \<Rightarrow> (Inl TypeError, h))"

text \<open>
  Modelled from the spec: \<^verbatim>\<open>tables.reprojection_error\<close>, of \<^verbatim>\<open>multical/tables.py\<close>, is
  missing from the sources. The spec (4.4): "elementwise Euclidean distance between
  projected and detected point tables, combined with a validity mask that is the
  logical AND of both tables' per-point validity; points invalid in either table are
  excluded, never treated as zero error." Both tables are point tables, with the
  fields \<^verbatim>\<open>points\<close> and \<^verbatim>\<open>valid_points\<close> (spec, 3). The two results are new arrays.
  It serves as an instance of the parameter \<open>reprojection_error_f\<close>.
\<close>

definition distance :: "float64 \<times> float64 \<Rightarrow> float64 \<times> float64 \<Rightarrow> float64" where
  "distance p q =
     fsqrt (fadd (fmul (fsub (fst p) (fst q)) (fsub (fst p) (fst q)))
                 (fmul (fsub (snd p) (snd q)) (fsub (snd p) (snd q))))"

definition reprojection_error_spec :: reprojection_error_op where
  "reprojection_error_spec h projected_a detected_a =
     (case (lookup h projected_a, lookup h detected_a) of
        (Some (TableObj pf), Some (TableObj df)) \<Rightarrow>
          (case (get_field h pf ''points'', get_field h pf ''valid_points'',
                 get_field h df ''points'', get_field h df ''valid_points'') of
             (Some (PointArray p1), Some (BoolArray v1), Some (PointArray p2), Some (BoolArray v2)) \<Rightarrow>
               if shape3 p1 = shape3 p2 \<and> shape3 v1 = shape3 p1 \<and> shape3 v2 = shape3 p2
               then (let (error, h1) = alloc h (FloatArray (zip_with3 distance p1 p2));
                         (valid, h2) = alloc h1 (BoolArray (zip_with3 (\<lambda>x y. x \<and> y) v1 v2))
                     in (Inr (error, valid), h2))
               else (Inl ValueError, h)
           | _ \<Rightarrow> (Inl TypeError, h))
      | _ \<Rightarrow> (Inl TypeError, h))"

text \<open>
  A small calibration in the heap, two cameras, one frame, two points: the projected
  table (address 2, fields at 0 and 1), the detected point table (address 5, fields
  at 3 and 4), the inlier mask (6) and an array of errors (7).
\<close>

definition example_heap :: heap where
  "example_heap =
     [PointArray [[[(Fin 1, Fin 2), (Fin 3, Fin 4)]], [[(Fin 0, Fin 0), (Fin 5, Fin 5)]]],
      BoolArray [[[True, True]], [[True, False]]],
      TableObj [(''points'', 0), (''valid_points'', 1)],
      PointArray [[[(Fin 1, Fin 2), (Fin 3, Fin 4)]], [[(Fin 0, Fin 0), (Fin 5, Fin 5)]]],
      BoolArray [[[True, True]], [[True, True]]],
      TableObj [(''points'', 3), (''valid_points'', 4)],
      BoolArray [[[True, False]], [[True, True]]],
      FloatArray [[[Fin 3, Fin 4]], [[Fin 1, Fin 7]]]]"

definition example_calib :: calibration where
  "example_calib = \<lparr>point_table = 5, inliers = 6, projected = 2\<rparr>"


section \<open>Properties\<close>

lemma np_maximum_positive: "list_all (\<lambda>k. 1 \<le> k) (np_maximum n 1)"
  by (simp add: np_maximum_def list_all_iff)


subsection \<open>What reprojection\_statistics returns on arrays of one shape\<close>

lemma remove_nan_fill:
  "remove_nan (map (\<lambda>(e, m). if \<not> m then NaN else e) ps) = remove_nan (map fst (filter snd ps))"
  by (induction ps) (auto simp: remove_nan_def)

lemma nanquantile_1d_fill:
  "nanquantile_1d (map2 (\<lambda>e m. if \<not> m then NaN else e) e m) q =
   nanquantile_1d (map fst (filter snd (zip e m))) q"
  by (simp add: nanquantile_1d_def remove_nan_fill)

lemma concat_empty_lengths: "(concat c = []) = (set (map length c) \<subseteq> {0})"
  by auto

lemma concat_empty_shape: "shape a = shape b \<Longrightarrow> (concat a = []) = (concat b = [])"
  by (simp only: concat_empty_lengths shape_def)

lemma shape_masked_fill: "shape msk = shape error \<Longrightarrow> shape (masked_fill error msk) = shape error"
proof (induction error arbitrary: msk)
  case Nil
  then show ?case by (simp add: shape_def masked_fill_def)
next
  case (Cons x error)
  then obtain y msk' where m: "msk = y # msk'" by (cases msk) (auto simp: shape_def)
  then show ?case using Cons by (simp add: shape_def masked_fill_def)
qed

lemma masked_quantile_five:
  assumes "shape valid = shape error" and "concat error \<noteq> []"
  shows "masked_quantile error valid [0, 1 / 4, 1 / 2, 3 / 4, 1] =
    Inr (PerQuantile
      [map (\<lambda>s. nanquantile_1d s 0) (masked_fill error valid),
       map (\<lambda>s. nanquantile_1d s (1 / 4)) (masked_fill error valid),
       map (\<lambda>s. nanquantile_1d s (1 / 2)) (masked_fill error valid),
       map (\<lambda>s. nanquantile_1d s (3 / 4)) (masked_fill error valid),
       map (\<lambda>s. nanquantile_1d s 1) (masked_fill error valid)])"
proof -
  have "concat (masked_fill error valid) \<noteq> []"
    using concat_empty_shape [OF shape_masked_fill [OF assms(1)]] assms(2) by simp
  then show ?thesis
    using assms(1) by (simp add: masked_quantile_def np_nanquantile_def)
qed

lemma reprojection_statistics_Inr:
  assumes "shape error = shape valid" and "shape inlier = shape valid" and "concat error \<noteq> []"
  shows "reprojection_statistics error valid inlier kept =
    Inr \<lparr>detected = np_sum_bool valid,
         outliers = np_sum_bool (map2 (map2 (\<lambda>x y. x \<and> y)) valid (np_not inlier)),
         mse = map2 (\<lambda>e v. fdiv (fsum (map (\<lambda>x. fmul x x) e)) (Fin (of_int (max (count_true v) 1)))) error valid,
         rms = map fsqrt (map2 (\<lambda>e v. fdiv (fsum (map (\<lambda>x. fmul x x) e)) (Fin (of_int (max (count_true v) 1)))) error valid),
         min_q = map (\<lambda>s. nanquantile_1d s 0) (masked_fill error valid),
         lower_q = map (\<lambda>s. nanquantile_1d s (1 / 4)) (masked_fill error valid),
         median = map (\<lambda>s. nanquantile_1d s (1 / 2)) (masked_fill error valid),
         upper_q = map (\<lambda>s. nanquantile_1d s (3 / 4)) (masked_fill error valid),
         max_q = map (\<lambda>s. nanquantile_1d s 1) (masked_fill error valid)\<rparr>"
proof -
  have len: "length error = length valid" "length inlier = length valid"
    using assms by (auto simp: shape_def dest: map_eq_imp_length_eq)
  have sh: "shape valid = shape (np_not inlier)"
    using assms by (simp add: shape_def np_not_def comp_def)
  have m: "map2 (\<lambda>a k. fdiv a (Fin (of_int k))) (np_sum (np_square error)) (np_maximum (np_sum_bool valid) 1)
     = map2 (\<lambda>e v. fdiv (fsum (map (\<lambda>x. fmul x x) e)) (Fin (of_int (max (count_true v) 1)))) error valid"
    by (simp add: np_sum_def np_square_def np_maximum_def np_sum_bool_def zip_map1 zip_map2 comp_def case_prod_unfold)
  have l: "length (np_sum (np_square error)) = length (np_maximum (np_sum_bool valid) 1)"
    using len by (simp add: np_sum_def np_square_def np_maximum_def np_sum_bool_def)
  have q: "masked_quantile error valid [0, 1 / 4, 1 / 2, 3 / 4, 1] =
    Inr (PerQuantile
      [map (\<lambda>s. nanquantile_1d s 0) (masked_fill error valid),
       map (\<lambda>s. nanquantile_1d s (1 / 4)) (masked_fill error valid),
       map (\<lambda>s. nanquantile_1d s (1 / 2)) (masked_fill error valid),
       map (\<lambda>s. nanquantile_1d s (3 / 4)) (masked_fill error valid),
       map (\<lambda>s. nanquantile_1d s 1) (masked_fill error valid)])"
    using assms(1,3) by (intro masked_quantile_five) simp_all
  show ?thesis
    using sh
    by (simp add: reprojection_statistics_def np_divide_def np_and_def q unpack_and_create_def
        iterate_first_axis_def Table_create_def np_sqrt_def m l)
qed

lemma count_true_map: "count_true (map f ps) = int (length (filter f ps))"
  by (induction ps) (auto simp: count_true_def)

lemma count_true_none: "list_all (\<lambda>b. \<not> b) v \<Longrightarrow> count_true v = 0"
  by (induction v) (auto simp: count_true_def)

lemma count_true_and_none: "list_all (\<lambda>b. \<not> b) v \<Longrightarrow> count_true (map2 (\<lambda>x y. x \<and> y) v w) = 0"
  by (auto simp: count_true_map filter_empty_conv list_all_iff dest: set_zip_leftD)

lemma nanquantile_1d_all_masked:
  "list_all (\<lambda>b. \<not> b) m \<Longrightarrow> nanquantile_1d (map2 (\<lambda>e m. if \<not> m then NaN else e) e m) q = NaN"
proof -
  assume "list_all (\<lambda>b. \<not> b) m"
  then have "filter snd (zip e m) = []"
    by (auto simp: filter_empty_conv list_all_iff dest: set_zip_rightD)
  then have "nanquantile_1d (map fst (filter snd (zip e m))) q = NaN"
    by (simp add: nanquantile_1d_def remove_nan_def)
  then show ?thesis
    by (simp only: nanquantile_1d_fill)
qed

lemma fdiv_one: "fdiv x (Fin 1) = x"
  by (cases x) auto

lemma square_not_nan: "x \<noteq> NaN \<Longrightarrow> fmul x x \<noteq> NaN \<and> fmul x x \<noteq> NInf"
  by (cases x) auto

lemma fadd_not_nan:
  "x \<noteq> NaN \<Longrightarrow> x \<noteq> NInf \<Longrightarrow> y \<noteq> NaN \<Longrightarrow> y \<noteq> NInf \<Longrightarrow> fadd x y \<noteq> NaN \<and> fadd x y \<noteq> NInf"
  by (cases x; cases y) auto

lemma fsum_squares_not_nan:
  "NaN \<notin> set e \<Longrightarrow> fsum (map (\<lambda>x. fmul x x) e) \<noteq> NaN \<and> fsum (map (\<lambda>x. fmul x x) e) \<noteq> NInf"
proof (induction e)
  case Nil
  then show ?case by simp
next
  case (Cons x e)
  then show ?case
    using square_not_nan [of x] fadd_not_nan [of "fmul x x" "fsum (map (\<lambda>x. fmul x x) e)"]
    by auto
qed

lemma fsum_squares_zero:
  "list_all (\<lambda>x. x = Fin 0) e \<Longrightarrow> fsum (map (\<lambda>x. fmul x x) e) = Fin 0"
  by (induction e) auto

subsection \<open>Counting detections and outliers\<close>

text \<open>
  C4, as the claim states it: for every input \<^verbatim>\<open>reprojection_statistics\<close> returns the
  counts. It fails on arrays without elements: \<^verbatim>\<open>np.nanquantile\<close> then returns
  \<^verbatim>\<open>np.nanmean\<close> of the array, which has no axis for the five quantiles, and the
  unpacking into five names raises. Two views without points (shape \<open>(2, 0)\<close>, reduced
  along the last axis) and an array without views (shape \<open>(0, 3)\<close>) raise ValueError.
  It also fails where the shapes differ: a mask of two entries for an error array of
  one entry raises IndexError at the assignment under the mask.
\<close>

theorem reprojection_statistics_raises_without_points:
  "reprojection_statistics [[], []] [[], []] [[], []] [2] = Inl ValueError \<and>
   reprojection_statistics [] [] [] [0] = Inl ValueError \<and>
   reprojection_statistics [[Fin 1]] [[True, True]] [[True, True]] [] = Inl IndexError"
  by (simp add: reprojection_statistics_def np_sum_bool_def np_divide_def np_sum_def
      np_square_def np_maximum_def np_and_def np_not_def shape_def masked_quantile_def
      np_nanquantile_def masked_fill_def unpack_and_create_def iterate_first_axis_def upt_rec)

text \<open>
  C4, amended. For error, valid and inlier arrays of one shape that hold at least one
  element, \<^verbatim>\<open>reprojection_statistics\<close> returns a table whose \<open>detected\<close> holds, per
  reduction slice, the number of points with valid true, and whose \<open>outliers\<close> holds
  the number of points with valid true and inlier false. Ten valid points of which two
  are not inliers give \<open>detected = 10\<close> and \<open>outliers = 2\<close>.
\<close>

theorem reprojection_statistics_counts:
  assumes "shape error = shape valid" and "shape inlier = shape valid" and "concat error \<noteq> []"
  shows "\<exists>t. reprojection_statistics error valid inlier kept = Inr t \<and>
     detected t = map (\<lambda>v. int (length (filter (\<lambda>b. b) v))) valid \<and>
     outliers t = map2 (\<lambda>v i. int (length (filter (\<lambda>(a, b). a \<and> \<not> b) (zip v i)))) valid inlier"
proof -
  have "np_sum_bool (map2 (map2 (\<lambda>x y. x \<and> y)) valid (np_not inlier)) =
        map2 (\<lambda>v i. int (length (filter (\<lambda>(a, b). a \<and> \<not> b) (zip v i)))) valid inlier"
    by (simp add: np_sum_bool_def np_not_def zip_map2 count_true_map comp_def case_prod_unfold)
  moreover have "np_sum_bool valid = map (\<lambda>v. int (length (filter (\<lambda>b. b) v))) valid"
    by (simp add: np_sum_bool_def count_true_def)
  ultimately show ?thesis
    by (simp add: reprojection_statistics_Inr [OF assms])
qed

theorem reprojection_statistics_counts_witness:
  "\<exists>t. reprojection_statistics
          [[Fin 1, Fin 2, Fin 1, Fin 1, Fin 1, Fin 1, Fin 1, Fin 3, Fin 1, Fin 1]]
          [[True, True, True, True, True, True, True, True, True, True]]
          [[True, False, True, True, True, True, True, False, True, True]] [1] = Inr t \<and>
       detected t = [10] \<and> outliers t = [2]"
  using reprojection_statistics_counts
    [of "[[Fin 1, Fin 2, Fin 1, Fin 1, Fin 1, Fin 1, Fin 1, Fin 3, Fin 1, Fin 1]]"
        "[[True, True, True, True, True, True, True, True, True, True]]"
        "[[True, False, True, True, True, True, True, False, True, True]]" "[1]"]
  by (simp add: shape_def)

subsection \<open>The mean squared error\<close>

text \<open>
  C2. The claim reads: \<open>mse\<close> is the sum of the squared error over the points whose
  validity is true, divided by \<open>max(count, 1)\<close>. The code divides by the number of
  valid points but sums \<^verbatim>\<open>np.square(error)\<close> over every entry of the slice, the mask
  is not applied to the numerator. On the slice with errors 3 (valid) and 4 (not
  valid) it returns \<open>mse = (9 + 16) / 1 = 25\<close>; the sum over the valid point alone
  gives 9.
\<close>

theorem mse_sums_invalid_entries:
  "\<exists>t. reprojection_statistics [[Fin 3, Fin 4]] [[True, False]] [[True, True]] [] = Inr t \<and>
       detected t = [1] \<and> mse t = [Fin 25]"
  by (simp add: reprojection_statistics_Inr shape_def np_sum_bool_def count_true_def)

text \<open>
  C3, as the claim states it: a slice with no valid point does not make the call raise
  and reports a no-data value for \<open>mse\<close>, never 0. It fails twice. The divisor is
  \<^verbatim>\<open>np.maximum(n, 1) = 1\<close>, so the quotient is an ordinary number, and 0 on a slice
  whose errors are 0. And on an array without elements, whose only slice is empty, the
  unpacking of the quantiles raises (here TypeError: with \<^verbatim>\<open>axis=None\<close> the result of
  \<^verbatim>\<open>np.nanquantile\<close> is a scalar).
\<close>

theorem mse_zero_without_valid_points:
  "(\<exists>t. reprojection_statistics [[Fin 0, Fin 0]] [[False, False]] [[True, False]] [] = Inr t \<and>
       detected t = [0] \<and> mse t = [Fin 0] \<and> mse t \<noteq> [NaN]) \<and>
   reprojection_statistics [[]] [[]] [[]] [] = Inl TypeError"
proof
  show "\<exists>t. reprojection_statistics [[Fin 0, Fin 0]] [[False, False]] [[True, False]] [] = Inr t \<and>
       detected t = [0] \<and> mse t = [Fin 0] \<and> mse t \<noteq> [NaN]"
    by (simp add: reprojection_statistics_Inr shape_def np_sum_bool_def count_true_def)
  show "reprojection_statistics [[]] [[]] [[]] [] = Inl TypeError"
    by (simp add: reprojection_statistics_def np_sum_bool_def count_true_def np_divide_def
        np_sum_def np_square_def np_maximum_def np_and_def np_not_def shape_def
        masked_quantile_def np_nanquantile_def masked_fill_def unpack_and_create_def
        iterate_first_axis_def)
qed

text \<open>
  C3, amended. For arrays of one shape that hold at least one element, and a reduction
  slice \<open>k\<close> with no valid point, \<^verbatim>\<open>reprojection_statistics\<close> does not raise and reports
  \<open>detected = 0\<close>, \<open>outliers = 0\<close> and NaN for the five quantile fields of the slice.
  Its \<open>mse\<close> is no sentinel: the division by \<open>max(0, 1) = 1\<close> gives a value that is
  NaN only if an error entry of the slice is NaN, and that is 0 when the errors of the
  slice are 0.
\<close>

theorem reprojection_statistics_no_valid_points:
  assumes "shape error = shape valid" and "shape inlier = shape valid"
    and "concat error \<noteq> []"
    and "k < length valid" and "list_all (\<lambda>b. \<not> b) (valid ! k)"
  shows "\<exists>t. reprojection_statistics error valid inlier kept = Inr t \<and>
     detected t ! k = 0 \<and> outliers t ! k = 0 \<and>
     min_q t ! k = NaN \<and> lower_q t ! k = NaN \<and> median t ! k = NaN \<and>
     upper_q t ! k = NaN \<and> max_q t ! k = NaN \<and>
     (NaN \<notin> set (error ! k) \<longrightarrow> mse t ! k \<noteq> NaN) \<and>
     (list_all (\<lambda>x. x = Fin 0) (error ! k) \<longrightarrow> mse t ! k = Fin 0)"
proof -
  have len: "length error = length valid" "length inlier = length valid"
    using assms(1,2) by (auto simp: shape_def dest: map_eq_imp_length_eq)
  have k: "k < length error" "k < length inlier"
    using len assms(4) by simp_all
  have n: "count_true (valid ! k) = 0"
    using assms(5) by (rule count_true_none)
  have q: "\<And>q. map (\<lambda>s. nanquantile_1d s q) (masked_fill error valid) ! k = NaN"
    using k assms(4,5) by (simp add: masked_fill_def nanquantile_1d_all_masked)
  have o: "np_sum_bool (map2 (map2 (\<lambda>x y. x \<and> y)) valid (np_not inlier)) ! k = 0"
    using k assms(4,5) by (simp add: np_sum_bool_def np_not_def count_true_and_none)
  have d: "np_sum_bool valid ! k = 0"
    using assms(4) n by (simp add: np_sum_bool_def)
  have m: "map2 (\<lambda>e v. fdiv (fsum (map (\<lambda>x. fmul x x) e)) (Fin (of_int (max (count_true v) 1))))
             error valid ! k = fsum (map (\<lambda>x. fmul x x) (error ! k))"
    using k assms(4) n by (simp add: fdiv_one)
  show ?thesis
    using q o d m fsum_squares_not_nan [of "error ! k"] fsum_squares_zero [of "error ! k"]
    by (simp add: reprojection_statistics_Inr [OF assms(1,2,3)])
qed

theorem reprojection_statistics_no_valid_points_witness:
  "\<exists>t. reprojection_statistics [[Fin 2, Fin 1], [Fin 0, Fin 0]] [[True, True], [False, False]]
          [[True, False], [True, True]] [2] = Inr t \<and>
       detected t ! 1 = 0 \<and> outliers t ! 1 = 0 \<and> median t ! 1 = NaN \<and> mse t ! 1 = Fin 0"
  using reprojection_statistics_no_valid_points
    [of "[[Fin 2, Fin 1], [Fin 0, Fin 0]]" "[[True, True], [False, False]]"
        "[[True, False], [True, True]]" 1 "[2]"]
  by (auto simp add: shape_def)

subsection \<open>Quantiles under a mask\<close>

lemma shape_length: "shape a = shape b \<Longrightarrow> length a = length b"
  by (metis shape_def length_map)

lemma selected_cong:
  "length e = length m \<Longrightarrow> length e' = length m \<Longrightarrow>
   (\<And>j. j < length m \<Longrightarrow> m ! j \<Longrightarrow> e' ! j = e ! j) \<Longrightarrow> selected e' m = selected e m"
proof (induction m arbitrary: e e')
  case Nil
  then show ?case by (simp add: selected_def)
next
  case (Cons b m)
  obtain x xs where e: "e = x # xs" using Cons.prems(1) by (cases e) auto
  obtain y ys where e': "e' = y # ys" using Cons.prems(2) by (cases e') auto
  have tl: "selected ys m = selected xs m"
  proof (rule Cons.IH)
    show "length xs = length m" using Cons.prems(1) e by simp
    show "length ys = length m" using Cons.prems(2) e' by simp
    fix j assume "j < length m" "m ! j"
    then show "ys ! j = xs ! j" using Cons.prems(3) [of "Suc j"] e e' by simp
  qed
  have hd: "b \<Longrightarrow> y = x" using Cons.prems(3) [of 0] e e' by simp
  show ?case using tl hd by (auto simp: selected_def e e')
qed

lemma nanquantile_1d_fill_pairs:
  "nanquantile_1d (map (\<lambda>p. if \<not> snd p then NaN else fst p) ps) q =
   nanquantile_1d (map fst (filter snd ps)) q"
  using remove_nan_fill [of ps] by (simp add: nanquantile_1d_def case_prod_unfold)

lemma masked_quantile_Inr:
  assumes "shape msk = shape error" and "list_all (\<lambda>q. 0 \<le> q \<and> q \<le> 1) quantiles"
  shows "masked_quantile error msk quantiles =
     Inr (if concat error = [] then NoQuantileAxis (map (\<lambda>s. NaN) error)
          else PerQuantile
            (map (\<lambda>q. map2 (\<lambda>e m. nanquantile_1d (selected e m) q) error msk) quantiles))"
proof -
  have e: "(concat (masked_fill error msk) = []) = (concat error = [])"
    using concat_empty_shape [OF shape_masked_fill [OF assms(1)]] .
  have "length (masked_fill error msk) = length error"
    using shape_masked_fill [OF assms(1)] shape_length by blast
  then have n: "map (\<lambda>s. NaN) (masked_fill error msk) = map (\<lambda>s. NaN :: float64) error"
    by (simp add: map_replicate_const)
  have p: "map (\<lambda>q. map (\<lambda>s. nanquantile_1d s q) (masked_fill error msk)) quantiles =
           map (\<lambda>q. map2 (\<lambda>e m. nanquantile_1d (selected e m) q) error msk) quantiles"
    by (simp add: masked_fill_def nanquantile_1d_fill_pairs selected_def comp_def
        case_prod_unfold)
  show ?thesis
    unfolding masked_quantile_def np_nanquantile_def e n p
    using assms by simp
qed

text \<open>
  C5. For an error array and a mask of one shape and quantiles within \<open>[0, 1]\<close>,
  \<^verbatim>\<open>masked_quantile\<close> does not raise and returns, per quantile and slice, the quantile
  of the entries the mask selects (for an array without elements: one NaN per slice).
  Hence an entry whose mask is false has no influence: two error arrays that agree
  wherever the mask is true give the same result. For a slice whose entries are all
  masked out, every value of the result is NaN.
\<close>

theorem masked_quantile_ignores_masked:
  assumes "shape msk = shape error" and "list_all (\<lambda>q. 0 \<le> q \<and> q \<le> 1) quantiles"
  shows "masked_quantile error msk quantiles =
       Inr (if concat error = [] then NoQuantileAxis (map (\<lambda>s. NaN) error)
            else PerQuantile
              (map (\<lambda>q. map2 (\<lambda>e m. nanquantile_1d (selected e m) q) error msk) quantiles)) \<and>
     (\<forall>error'. shape error' = shape error \<and>
        (\<forall>k<length msk. \<forall>j<length (msk ! k). msk ! k ! j \<longrightarrow> error' ! k ! j = error ! k ! j) \<longrightarrow>
        masked_quantile error' msk quantiles = masked_quantile error msk quantiles) \<and>
     (\<forall>k<length msk. list_all (\<lambda>m. \<not> m) (msk ! k) \<longrightarrow>
        (\<exists>r. masked_quantile error msk quantiles = Inr r \<and>
             list_all (\<lambda>x. x = NaN) (slice_values r k)))"
proof (intro conjI allI impI)
  show "masked_quantile error msk quantiles =
       Inr (if concat error = [] then NoQuantileAxis (map (\<lambda>s. NaN) error)
            else PerQuantile
              (map (\<lambda>q. map2 (\<lambda>e m. nanquantile_1d (selected e m) q) error msk) quantiles))"
    by (rule masked_quantile_Inr [OF assms])
next
  fix error'
  assume a: "shape error' = shape error \<and>
        (\<forall>k<length msk. \<forall>j<length (msk ! k). msk ! k ! j \<longrightarrow> error' ! k ! j = error ! k ! j)"
  have len: "length error = length msk" "length error' = length msk"
    using assms(1) a shape_length [of msk error] shape_length [of error' error] by simp_all
  have lk: "length (error ! k) = length (msk ! k)" "length (error' ! k) = length (msk ! k)"
    if "k < length msk" for k
  proof -
    have "map length error ! k = map length msk ! k" "map length error' ! k = map length msk ! k"
      using assms(1) a by (simp_all add: shape_def)
    then show "length (error ! k) = length (msk ! k)" "length (error' ! k) = length (msk ! k)"
      using that len by simp_all
  qed
  have sel: "selected (error' ! k) (msk ! k) = selected (error ! k) (msk ! k)" if "k < length msk" for k
    using lk [OF that] a that by (intro selected_cong) auto
  have rows: "map2 (\<lambda>e m. nanquantile_1d (selected e m) q) error' msk =
        map2 (\<lambda>e m. nanquantile_1d (selected e m) q) error msk" for q
    using len sel by (intro nth_equalityI) auto
  have sh: "shape msk = shape error'" using assms(1) a by simp
  have emp: "(concat error' = []) = (concat error = [])"
    using a concat_empty_shape by blast
  have nan: "map (\<lambda>s. NaN :: float64) error' = map (\<lambda>s. NaN) error"
    using len by (simp add: map_replicate_const)
  show "masked_quantile error' msk quantiles = masked_quantile error msk quantiles"
    by (simp only: masked_quantile_Inr [OF assms] masked_quantile_Inr [OF sh assms(2)]
        rows emp nan)
next
  fix k
  assume k: "k < length msk" and none: "list_all (\<lambda>m. \<not> m) (msk ! k)"
  have len: "length error = length msk"
    using assms(1) shape_length [of msk error] by simp
  have "selected (error ! k) (msk ! k) = []"
    using none by (auto simp: selected_def filter_empty_conv list_all_iff dest: set_zip_rightD)
  then have "nanquantile_1d (selected (error ! k) (msk ! k)) q = NaN" for q
    by (simp add: nanquantile_1d_def remove_nan_def)
  then have "list_all (\<lambda>x. x = NaN)
       (slice_values (PerQuantile
          (map (\<lambda>q. map2 (\<lambda>e m. nanquantile_1d (selected e m) q) error msk) quantiles)) k)"
    using k len by (simp add: slice_values_def list_all_iff)
  moreover have "list_all (\<lambda>x. x = NaN)
       (slice_values (NoQuantileAxis (map (\<lambda>s. NaN) error)) k)"
    using k len by (simp add: slice_values_def)
  ultimately show "\<exists>r. masked_quantile error msk quantiles = Inr r \<and>
      list_all (\<lambda>x. x = NaN) (slice_values r k)"
    by (simp add: masked_quantile_Inr [OF assms])
qed

theorem masked_quantile_ignores_masked_witness:
  "masked_quantile [[Fin 3, Fin 4, Fin 1, Fin 7], [Fin 5, Fin 6]]
     [[True, False, True, True], [False, False]] [0, 1 / 2, 1] =
   Inr (PerQuantile [[Fin 1, NaN], [Fin 3, NaN], [Fin 7, NaN]]) \<and>
   masked_quantile [[Fin 3, Fin 99, Fin 1, Fin 7], [Fin 0, NaN]]
     [[True, False, True, True], [False, False]] [0, 1 / 2, 1] =
   Inr (PerQuantile [[Fin 1, NaN], [Fin 3, NaN], [Fin 7, NaN]]) \<and>
   masked_quantile [[], []] [[], []] [0, 1 / 2, 1] = Inr (NoQuantileAxis [NaN, NaN])"
  using masked_quantile_ignores_masked
    [of "[[True, False, True, True], [False, False]]"
        "[[Fin 3, Fin 4, Fin 1, Fin 7], [Fin 5, Fin 6]]" "[0, 1 / 2, 1]"]
    masked_quantile_Inr
    [of "[[True, False, True, True], [False, False]]"
        "[[Fin 3, Fin 99, Fin 1, Fin 7], [Fin 0, NaN]]" "[0, 1 / 2, 1]"]
    masked_quantile_Inr [of "[[], []]" "[[], []]" "[0, 1 / 2, 1]"]
  by (simp add: shape_def selected_def nanquantile_1d_def remove_nan_def quantile_sorted_def
      lerp_def fsub_def)

subsection \<open>The cell colour of a view without detections\<close>

lemma outlier_rate_finite:
  "outlier_rate view_stats =
     Fin (of_int (outliers view_stats) / of_int (max (detected view_stats) 1))"
  by (simp add: outlier_rate_def true_divide_def)

text \<open>
  C10. For a view with \<open>detected = 0\<close> the divisor of the outlier rate is
  \<open>max(0, 1) = 1\<close>, the outlier rate is the finite number \<open>outliers / 1\<close> (no division by
  zero), and \<^verbatim>\<open>cell_color\<close> returns a colour: the interpolation of the two configured
  colours at \<open>min(5 * outliers, 1)\<close>, with its luminance set from the detection rate
  (1 for a board that has points).
\<close>

theorem cell_color_zero_detections:
  assumes "detected view_stats = 0"
  shows "max (detected view_stats) 1 = 1 \<and>
     outlier_rate view_stats = Fin (of_int (outliers view_stats)) \<and>
     cell_color self view_stats =
       (interpolate_hsl (py_min (Fin (5 * of_int (outliers view_stats))) (Fin 1))
          (inlier_color self) (outlier_color self))
       \<lparr>luminance := (if num_points self = 0 then NaN else Fin 1)\<rparr>"
  using assms
  by (simp add: outlier_rate_def true_divide_def cell_color_def detection_rate_def
      set_luminance_def py_min_def py_max_def fsub_def Let_def mult.commute)

theorem cell_color_zero_detections_witness:
  "cell_color \<lparr>num_points = 12,
        inlier_color = \<lparr>hue = Fin (1 / 3), saturation = Fin 1, luminance = Fin (1 / 2)\<rparr>,
        outlier_color = \<lparr>hue = Fin 0, saturation = Fin 1, luminance = Fin (1 / 2)\<rparr>\<rparr>
     \<lparr>detected = 0, outliers = 0, mse = Fin 0, rms = Fin 0, min_q = NaN, lower_q = NaN,
      median = NaN, upper_q = NaN, max_q = NaN\<rparr> =
   \<lparr>hue = Fin (1 / 3), saturation = Fin 1, luminance = Fin 1\<rparr>"
  using cell_color_zero_detections
    [of "\<lparr>detected = 0, outliers = 0, mse = Fin 0, rms = Fin 0, min_q = NaN, lower_q = NaN,
      median = NaN, upper_q = NaN, max_q = NaN\<rparr>"
      "\<lparr>num_points = 12,
        inlier_color = \<lparr>hue = Fin (1 / 3), saturation = Fin 1, luminance = Fin (1 / 2)\<rparr>,
        outlier_color = \<lparr>hue = Fin 0, saturation = Fin 1, luminance = Fin (1 / 2)\<rparr>\<rparr>"]
  by (simp add: interpolate_hsl_def py_min_def fsub_def)

subsection \<open>The Static motion model\<close>

text \<open>
  C6. The claim reads: \<^verbatim>\<open>project(cameras, camera_poses, world_points)\<close> succeeds without
  a detections argument and returns the predicted image points. The code forwards its
  three arguments to \<^verbatim>\<open>reproject\<close>, which requires a fourth: every call of
  \<^verbatim>\<open>project\<close> raises TypeError.
\<close>

theorem Static_project_raises:
  "Static_project ops self cameras camera_poses world_points = Inl TypeError"
  by (simp add: Static_project_def Static_reproject_def)

lemma Static_reproject_after_init:
  "\<exists>e. Static_reproject ops (Static_init p) cameras camera_poses world_points d = Inl e"
  by (simp add: Static_reproject_def Static_init_def split: option.splits sum.splits)

text \<open>
  C7. The claim reads: \<^verbatim>\<open>reproject\<close> aligns its result with the validity mask of
  \<^verbatim>\<open>detected\<close>. The code never reads \<^verbatim>\<open>detected\<close>: whatever table is passed, the
  outcome is the same, and the validity it returns is the one of
  \<^verbatim>\<open>tables.transform_points\<close>.
\<close>

theorem Static_reproject_ignores_detected:
  "Static_reproject ops self cameras camera_poses world_points (Some d) =
   Static_reproject ops self cameras camera_poses world_points (Some d')"
  by (simp add: Static_reproject_def)

text \<open>
  An instance: one camera (set as \<^verbatim>\<open>self.cameras\<close>), helpers that succeed and report
  the single point valid, and a detected mask that marks it undetected. The returned
  table marks the point valid.
\<close>

lemma Static_reproject_keeps_undetected_point_valid:
  "Static_reproject
     \<lparr>expand_views = (\<lambda>cp p. Inr ()),
      transform_points = (\<lambda>w v. Inr \<lparr>tbl_points = [w], tbl_valid = [[True]]\<rparr>),
      camera_project = (\<lambda>camera p. Inr p)\<rparr>
     \<lparr>poses = (), cameras_attr = Some [()]\<rparr> [()] () [(0::int, 0::int)] (Some [[False]]) =
   Inr \<lparr>tbl_points = [[(0, 0)]], tbl_valid = [[True]]\<rparr>"
  by (simp add: Static_reproject_def)

text \<open>
  C1. The claim reads: \<^verbatim>\<open>with_params(x)\<close> returns a new Static instance whose
  \<^verbatim>\<open>params()\<close> is \<open>x\<close>. The body of \<^verbatim>\<open>with_params\<close> is \<^verbatim>\<open>pass\<close>: it returns
  \<^verbatim>\<open>None\<close>, and calling \<^verbatim>\<open>params()\<close> on that raises AttributeError.
\<close>

theorem Static_with_params_returns_none:
  "Static_with_params self x = PyNone \<and>
   call_params (Static_with_params self x) = Inl AttributeError"
  by (simp add: Static_with_params_def)

text \<open>
  C8. The claim reads: \<^verbatim>\<open>sparsity(index_table)\<close> returns a sparsity structure that is
  block diagonal in the frame axis. The body of \<^verbatim>\<open>sparsity\<close> is \<^verbatim>\<open>pass\<close>: it returns
  \<^verbatim>\<open>None\<close> for every index table.
\<close>

theorem Static_sparsity_returns_none: "Static_sparsity self index_table = PyNone"
  by (simp add: Static_sparsity_def)


subsection \<open>The slices of an array and elementwise operations\<close>

text \<open>
  An elementwise operation on arrays of one shape acts slice by slice, whatever the
  axis. So the functions on objects return what \<^verbatim>\<open>masked_quantile\<close> and
  \<^verbatim>\<open>reprojection_statistics\<close> above return on the slices of their arguments.
\<close>

lemma view_map3: "view ax (map3 g a) = map (map g) (view ax a)"
  by (cases ax) (simp_all add: map3_def map_concat transpose_map_map comp_def)

lemma zip_with3_conv: "zip_with3 g a b = map3 (\<lambda>p. g (fst p) (snd p)) (zip3 a b)"
  by (simp add: zip_with3_def map3_def zip3_def case_prod_unfold comp_def)

lemma map_fst_zip2:
  "map length a = map length b \<Longrightarrow> map (map fst) (map2 zip a b) = a \<and> map (map snd) (map2 zip a b) = b"
proof (induction a arbitrary: b)
  case Nil
  then show ?case by simp
next
  case (Cons x a)
  then obtain y b' where b: "b = y # b'" by (cases b) auto
  then show ?case using Cons by simp
qed

lemma unzip3:
  "shape3 a = shape3 b \<Longrightarrow> map3 fst (zip3 a b) = a \<and> map3 snd (zip3 a b) = b"
proof (induction a arbitrary: b)
  case Nil
  then show ?case by (simp add: shape3_def map3_def zip3_def)
next
  case (Cons x a)
  then obtain y b' where b: "b = y # b'" by (cases b) (auto simp: shape3_def)
  have "map length x = map length y" "shape3 a = shape3 b'"
    using Cons.prems b by (simp_all add: shape3_def)
  then show ?case
    using Cons.IH [of b'] map_fst_zip2 [of x y] b
    by (simp add: map3_def zip3_def)
qed

lemma map2_map2_fst_snd:
  "map2 (map2 g) (map (map fst) V) (map (map snd) V) = map (map (\<lambda>p. g (fst p) (snd p))) V"
  by (induction V) (simp_all add: zip_map_fst_snd case_prod_unfold)

lemma view_zip_with3:
  assumes "shape3 a = shape3 b"
  shows "view ax (zip_with3 g a b) = map2 (map2 g) (view ax a) (view ax b)"
proof -
  let ?z = "zip3 a b"
  have a: "a = map3 fst ?z" and b: "b = map3 snd ?z"
    using unzip3 [OF assms] by simp_all
  have "view ax (zip_with3 g a b) = map (map (\<lambda>p. g (fst p) (snd p))) (view ax ?z)"
    by (simp add: zip_with3_conv view_map3)
  also have "\<dots> = map2 (map2 g) (map (map fst) (view ax ?z)) (map (map snd) (view ax ?z))"
    by (simp only: map2_map2_fst_snd)
  also have "\<dots> = map2 (map2 g) (view ax (map3 fst ?z)) (view ax (map3 snd ?z))"
    by (simp only: view_map3)
  finally show ?thesis using a b by simp
qed

lemma shape_view:
  assumes "shape3 a = shape3 b"
  shows "shape (view ax a) = shape (view ax b)"
proof -
  let ?z = "zip3 a b"
  have "shape (view ax (map3 fst ?z)) = shape (view ax (map3 snd ?z))"
    by (simp add: view_map3 shape_def comp_def)
  then show ?thesis using unzip3 [OF assms] by simp
qed

lemma shape3_map3: "shape3 (map3 g a) = shape3 a"
  by (simp add: shape3_def map3_def comp_def)

lemma masked_quantile_heap_result:
  assumes "lookup h error = Some (FloatArray e)" and "lookup h msk = Some (BoolArray m)"
    and "shape3 m = shape3 e"
  shows "fst (masked_quantile_heap h ax error msk quantiles) =
         masked_quantile (view ax e) (view ax m) quantiles"
proof -
  have "view ax (zip_with3 (\<lambda>x b. if \<not> b then NaN else x) e m) = masked_fill (view ax e) (view ax m)"
    using assms(3) by (simp add: view_zip_with3 masked_fill_def)
  moreover have "shape (view ax m) = shape (view ax e)"
    using assms(3) by (rule shape_view)
  ultimately show ?thesis
    using assms
    by (simp add: masked_quantile_heap_def masked_quantile_def alloc_def lookup_def Let_def)
qed

lemma kept_shape_cong: "shape3 a = shape3 b \<Longrightarrow> kept_shape ax a = kept_shape ax b"
proof -
  assume s: "shape3 a = shape3 b"
  then have l: "length a = length b"
    by (metis shape3_def length_map)
  have "frames_of a = frames_of b"
    using s by (cases a; cases b) (auto simp: shape3_def frames_of_def dest: map_eq_imp_length_eq)
  then show ?thesis using l by (cases ax) simp_all
qed

lemma reprojection_statistics_heap_result:
  assumes "lookup h error = Some (FloatArray e)" and "lookup h valid = Some (BoolArray v)"
    and "lookup h inlier = Some (BoolArray i)"
    and "shape3 v = shape3 e" and "shape3 i = shape3 v"
  shows "fst (reprojection_statistics_heap h ax error valid inlier) =
         reprojection_statistics (view ax e) (view ax v) (view ax i) (kept_shape ax e)"
proof -
  let ?qs = "[0, 1 / 4, 1 / 2, 3 / 4, 1] :: real list"
  have sev: "shape (view ax e) = shape (view ax v)"
    using assms(4) shape_view [of e v ax] by simp
  have siv: "shape (view ax i) = shape (view ax v)"
    using assms(5) by (rule shape_view)
  have kv: "kept_shape ax v = kept_shape ax e"
    using assms(4) by (rule kept_shape_cong)
  have sq: "view ax (map3 (\<lambda>x. fmul x x) e) = np_square (view ax e)"
    by (simp add: view_map3 np_square_def)
  have sh: "shape3 v = shape3 (map3 (\<lambda>b. \<not> b) i)"
    using assms(5) by (simp add: shape3_map3)
  have an: "np_and3 v (map3 (\<lambda>b. \<not> b) i) = Inr (zip_with3 (\<lambda>x y. x \<and> y) v (map3 (\<lambda>b. \<not> b) i))"
    using sh by (simp add: np_and3_def)
  have anv: "view ax (zip_with3 (\<lambda>x y. x \<and> y) v (map3 (\<lambda>b. \<not> b) i)) =
            map2 (map2 (\<lambda>x y. x \<and> y)) (view ax v) (np_not (view ax i))"
    using sh by (simp add: view_zip_with3 view_map3 np_not_def)
  have len: "length (np_sum (np_square (view ax e))) = length (np_maximum (np_sum_bool (view ax v)) 1)"
    using shape_length [OF sev] by (simp add: np_sum_def np_square_def np_maximum_def np_sum_bool_def)
  have dv: "np_divide (np_sum (np_square (view ax e))) (np_maximum (np_sum_bool (view ax v)) 1) =
     Inr (map2 (\<lambda>a k. fdiv a (Fin (of_int k))) (np_sum (np_square (view ax e)))
            (np_maximum (np_sum_bool (view ax v)) 1))"
    using len by (simp add: np_divide_def)
  have andv: "np_and (view ax v) (np_not (view ax i)) =
     Inr (map2 (map2 (\<lambda>x y. x \<and> y)) (view ax v) (np_not (view ax i)))"
    using siv by (simp add: np_and_def np_not_def shape_def comp_def)
  obtain r h' where mq: "masked_quantile_heap h ax error valid ?qs = (r, h')"
    by (cases "masked_quantile_heap h ax error valid ?qs")
  have r: "masked_quantile (view ax e) (view ax v) ?qs = r"
    using masked_quantile_heap_result [OF assms(1,2,4), of ax ?qs] mq by simp
  have lhs: "fst (reprojection_statistics_heap h ax error valid inlier) =
     (case r of
        Inl x \<Rightarrow> Inl x
      | Inr quantiles \<Rightarrow>
          unpack_and_create (kept_shape ax e) (kept_shape ax e) (np_sum_bool (view ax v))
            (np_sum_bool (map2 (map2 (\<lambda>x y. x \<and> y)) (view ax v) (np_not (view ax i))))
            (map2 (\<lambda>a k. fdiv a (Fin (of_int k))) (np_sum (np_square (view ax e)))
               (np_maximum (np_sum_bool (view ax v)) 1))
            quantiles)"
    unfolding reprojection_statistics_heap_def
    by (cases r)
      (simp_all only: assms(1,2,3) sq dv an anv mq kv Let_def option.case obj.case sum.case
        prod.case fst_conv)
  have rhs: "reprojection_statistics (view ax e) (view ax v) (view ax i) (kept_shape ax e) =
     (case r of
        Inl x \<Rightarrow> Inl x
      | Inr quantiles \<Rightarrow>
          unpack_and_create (kept_shape ax e) (kept_shape ax e) (np_sum_bool (view ax v))
            (np_sum_bool (map2 (map2 (\<lambda>x y. x \<and> y)) (view ax v) (np_not (view ax i))))
            (map2 (\<lambda>a k. fdiv a (Fin (of_int k))) (np_sum (np_square (view ax e)))
               (np_maximum (np_sum_bool (view ax v)) 1))
            quantiles)"
    unfolding reprojection_statistics_def
    by (simp only: dv andv r Let_def sum.case)
  show ?thesis by (simp only: lhs rhs)
qed

subsection \<open>What the calls leave unchanged\<close>

lemma unchanged_refl: "unchanged h h"
  by (simp add: unchanged_def)

lemma unchanged_length: "unchanged h h' \<Longrightarrow> length h \<le> length h'"
proof -
  assume "unchanged h h'"
  then have "length (take (length h) h') = length h"
    by (simp only: unchanged_def)
  then show ?thesis by simp
qed

lemma unchanged_trans:
  assumes "unchanged h h1" and "unchanged h1 h2"
  shows "unchanged h h2"
proof -
  have "length h \<le> length h1"
    using assms(1) by (rule unchanged_length)
  then have "take (length h) (take (length h1) h2) = take (length h) h2"
    by (simp add: min.absorb1)
  then show ?thesis
    using assms unfolding unchanged_def by simp
qed

lemma unchanged_append: "unchanged h (h @ xs)"
  by (simp add: unchanged_def)

lemma unchanged_append_update: "unchanged h ((h @ xs)[length h := x])"
  by (simp add: unchanged_def)

lemma unchanged_lookup:
  assumes "unchanged h h'" and "a < length h"
  shows "lookup h' a = lookup h a"
proof -
  have "length h \<le> length h'"
    using assms(1) by (rule unchanged_length)
  moreover have "h' ! a = h ! a"
    using assms unfolding unchanged_def by (metis nth_take)
  ultimately show ?thesis
    using assms(2) by (simp add: lookup_def)
qed

lemma masked_quantile_heap_unchanged:
  "unchanged h (snd (masked_quantile_heap h ax error msk quantiles))"
  by (auto simp: masked_quantile_heap_def alloc_def unchanged_refl unchanged_append
      unchanged_append_update Let_def split: option.splits obj.splits)

lemma reprojection_statistics_heap_unchanged:
  "unchanged h (snd (reprojection_statistics_heap h ax error valid inlier))"
  using masked_quantile_heap_unchanged [of h ax error valid "[0, 1 / 4, 1 / 2, 3 / 4, 1]"]
  by (auto simp: reprojection_statistics_heap_def unchanged_refl Let_def
      split: option.splits obj.splits sum.splits prod.splits)

lemma axes_map_unchanged:
  assumes "\<And>h ax. unchanged h (snd (f h ax))"
  shows "unchanged h (snd (axes_map f h))"
proof -
  obtain r1 h1 where 1: "f h AxisNone = (r1, h1)" by (cases "f h AxisNone")
  obtain r2 h2 where 2: "f h1 Axis2 = (r2, h2)" by (cases "f h1 Axis2")
  obtain r3 h3 where 3: "f h2 Axis12 = (r3, h3)" by (cases "f h2 Axis12")
  obtain r4 h4 where 4: "f h3 Axis02 = (r4, h4)" by (cases "f h3 Axis02")
  have u1: "unchanged h h1" using assms [of h AxisNone] 1 by simp
  have u2: "unchanged h h2" using assms [of h1 Axis2] 2 u1 unchanged_trans [of h h1 h2] by simp
  have u3: "unchanged h h3" using assms [of h2 Axis12] 3 u2 unchanged_trans [of h h2 h3] by simp
  have u4: "unchanged h h4" using assms [of h3 Axis02] 4 u3 unchanged_trans [of h h3 h4] by simp
  show ?thesis
    using 1 2 3 4 u1 u2 u3 u4
    by (auto simp: axes_map_def split: sum.splits)
qed

lemma reprojection_tables_heap_unchanged:
  assumes "\<forall>h t f a. unchanged h (snd (extend_f h t f a))"
    and "\<forall>h p d. unchanged h (snd (reprojection_error_f h p d))"
  shows "unchanged h (snd (reprojection_tables_heap extend_f reprojection_error_f h calib inlier_only))"
proof -
  define r1 where "r1 = (if inlier_only then extend_f h (point_table calib) ''valid_points'' (inliers calib)
            else (Inr (point_table calib), h))"
  have u1: "unchanged h (snd r1)"
    using assms(1) by (simp add: r1_def unchanged_refl)
  show ?thesis
  proof (cases r1)
    case (Pair x h1)
    note r1 = this
    show ?thesis
    proof (cases x)
      case (Inl e)
      then show ?thesis using r1 u1 by (simp add: reprojection_tables_heap_def r1_def [symmetric])
    next
      case (Inr pt)
      obtain y h2 where r2: "reprojection_error_f h1 (projected calib) pt = (y, h2)"
        by (cases "reprojection_error_f h1 (projected calib) pt")
      have "unchanged h h1" using u1 r1 by simp
      moreover have "unchanged h1 h2"
        using assms(2) r2 by (metis snd_conv)
      ultimately have u2: "unchanged h h2"
        by (rule unchanged_trans)
      show ?thesis
      proof (cases y)
        case (Inl e)
        then show ?thesis using r1 Inr r2 u2
          by (simp add: reprojection_tables_heap_def r1_def [symmetric])
      next
        case (Inr ev)
        obtain error valid where ev: "ev = (error, valid)" by (cases ev)
        have "unchanged h2 (snd (axes_map (\<lambda>h' ax. reprojection_statistics_heap h' ax error valid (inliers calib)) h2))"
          by (rule axes_map_unchanged) (rule reprojection_statistics_heap_unchanged)
        then have "unchanged h (snd (axes_map (\<lambda>h' ax. reprojection_statistics_heap h' ax error valid (inliers calib)) h2))"
          using u2 unchanged_trans by blast
        then show ?thesis using r1 \<open>x = Inr pt\<close> r2 Inr ev
          by (simp add: reprojection_tables_heap_def r1_def [symmetric])
      qed
    qed
  qed
qed

lemma extend_spec_unchanged: "unchanged h (snd (extend_spec h t f a))"
  by (auto simp: extend_spec_def alloc_def unchanged_refl unchanged_append
      split: option.splits obj.splits)

lemma reprojection_error_spec_unchanged: "unchanged h (snd (reprojection_error_spec h p d))"
proof -
  have "unchanged h (h @ [x, y])" for x y by (rule unchanged_append)
  then show ?thesis
    by (auto simp: reprojection_error_spec_def alloc_def unchanged_refl
        split: option.splits obj.splits)
qed

lemma example_extend:
  "extend_spec example_heap 5 ''valid_points'' 6 =
     (Inr 8, example_heap @ [TableObj [(''valid_points'', 6), (''points'', 3)]])"
  by (simp add: extend_spec_def example_heap_def lookup_def alloc_def shape3_def)

lemma example_reprojection_error:
  "reprojection_error_spec (example_heap @ [TableObj [(''valid_points'', 6), (''points'', 3)]]) 2 8 =
     (Inr (9, 10), example_heap @ [TableObj [(''valid_points'', 6), (''points'', 3)],
        FloatArray [[[Fin 0, Fin 0]], [[Fin 0, Fin 0]]],
        BoolArray [[[True, False]], [[True, False]]]])"
  by (simp add: reprojection_error_spec_def example_heap_def lookup_def alloc_def shape3_def
      get_field_def zip_with3_def distance_def fsub_def)

lemma example_masked_quantile:
  "masked_quantile_heap example_heap Axis2 7 6 [1 / 2] =
     (Inr (PerQuantile [[Fin 3, Fin 4]]),
      example_heap @ [FloatArray [[[Fin 3, NaN]], [[Fin 1, Fin 7]]]])"
  by (simp add: masked_quantile_heap_def example_heap_def lookup_def alloc_def shape3_def
      zip_with3_def np_nanquantile_def nanquantile_1d_def remove_nan_def quantile_sorted_def
      lerp_def fsub_def)

lemma example_reprojection_tables:
  "\<exists>t h'. reprojection_tables_heap extend_spec reprojection_error_spec example_heap example_calib True
       = (Inr t, h') \<and> length h' = 15 \<and>
     detected (overall_t t) = [2] \<and> detected (views_t t) = [1, 1] \<and>
     outliers (cameras_t t) = [0, 0] \<and> mse (frames_t t) = [Fin 0]"
proof -
  have "reprojection_tables_heap extend_spec reprojection_error_spec example_heap example_calib True =
     axes_map (\<lambda>h' ax. reprojection_statistics_heap h' ax 9 10 6)
       (example_heap @ [TableObj [(''valid_points'', 6), (''points'', 3)],
          FloatArray [[[Fin 0, Fin 0]], [[Fin 0, Fin 0]]],
          BoolArray [[[True, False]], [[True, False]]]])"
    by (simp add: reprojection_tables_heap_def example_calib_def example_extend
        example_reprojection_error)
  then show ?thesis
    by (simp add: axes_map_def reprojection_statistics_heap_def masked_quantile_heap_def
        example_heap_def lookup_def alloc_def shape3_def zip_with3_def map3_def np_and3_def
        np_divide_def np_sum_def np_sum_bool_def np_maximum_def count_true_def
        np_nanquantile_def nth_append unpack_and_create_def iterate_first_axis_def
        Table_create_def leading_dimension_def frames_of_def)
qed

text \<open>
  C9. \<^verbatim>\<open>masked_quantile\<close> and \<^verbatim>\<open>reprojection_tables\<close> leave their inputs as they were:
  after either call, whether it returns or raises, every object that was in the heap
  before it is at its address with its contents, in particular the error array passed
  to \<^verbatim>\<open>masked_quantile\<close> and the point table of the calibration with the arrays of its
  fields. \<^verbatim>\<open>masked_quantile\<close> writes NaN into a copy. For \<^verbatim>\<open>reprojection_tables\<close> the
  two functions that are not in these sources are taken to leave existing objects
  unchanged, as the spec says of every table operation.
\<close>

theorem masked_quantile_reprojection_tables_pure:
  assumes "\<forall>h t f a. unchanged h (snd (extend_f h t f a))"
    and "\<forall>h p d. unchanged h (snd (reprojection_error_f h p d))"
  shows "unchanged h (snd (masked_quantile_heap h ax error msk quantiles)) \<and>
     unchanged h (snd (reprojection_tables_heap extend_f reprojection_error_f h calib inlier_only))"
  using masked_quantile_heap_unchanged reprojection_tables_heap_unchanged [OF assms]
  by simp

theorem masked_quantile_reprojection_tables_pure_witness:
  "unchanged example_heap (snd (masked_quantile_heap example_heap Axis2 7 6 [1 / 2])) \<and>
   unchanged example_heap
     (snd (reprojection_tables_heap extend_spec reprojection_error_spec example_heap
        example_calib True)) \<and>
   lookup (snd (masked_quantile_heap example_heap Axis2 7 6 [1 / 2])) 7 = lookup example_heap 7 \<and>
   lookup (snd (masked_quantile_heap example_heap Axis2 7 6 [1 / 2])) 8 =
     Some (FloatArray [[[Fin 3, NaN]], [[Fin 1, Fin 7]]])"
proof -
  have e: "\<forall>h t f a. unchanged h (snd (extend_spec h t f a))"
    by (simp add: extend_spec_unchanged)
  have r: "\<forall>h p d. unchanged h (snd (reprojection_error_spec h p d))"
    by (simp add: reprojection_error_spec_unchanged)
  have "lookup (example_heap @ [FloatArray [[[Fin 3, NaN]], [[Fin 1, Fin 7]]]]) 7 = lookup example_heap 7"
    "lookup (example_heap @ [FloatArray [[[Fin 3, NaN]], [[Fin 1, Fin 7]]]]) 8 =
       Some (FloatArray [[[Fin 3, NaN]], [[Fin 1, Fin 7]]])"
    by (simp_all add: lookup_def example_heap_def)
  then show ?thesis
    using masked_quantile_reprojection_tables_pure
      [OF e r, of example_heap Axis2 7 6 "[1 / 2]" example_calib True]
    by (simp add: example_masked_quantile)
qed

end
